theory Spec2Isabelle
  imports Main
begin

unbundle bit_operations_syntax

section \<open>JavaScript values\<close>

text \<open>
  The values that travel through the wrapper: statement parameters, rows, and the
  values handed to the insertion builders.
  \<^item> \<open>JNum\<close> is a number, given by the text JavaScript writes it with (\<open>32\<close>, \<open>1.5\<close>,
    \<open>1e+21\<close>, \<open>NaN\<close>, \<open>Infinity\<close>): the wrapper never computes with a number, it
    writes it or hands it on.
  \<^item> \<open>JArr\<close> is an array without holes.
  \<^item> \<open>JMap\<close> lists the entries of a \<open>Map\<close> in insertion order.
  \<^item> \<open>JObj\<close> is any other object (a plain object, an instance of a class, a function,
    which the builders treat as one more object): the text \<open>String(ob)\<close> gives for it,
    its own enumerable properties in the order \<open>Object.keys\<close> reports them, and the
    other properties that can be read on it, those it inherits through its prototype
    chain and its own ones that are not enumerable.
  The keys of a \<open>JMap\<close>, and those of each table of a \<open>JObj\<close>, are distinct in a
  well-formed value. Symbols are not among the values. The one function the wrapper
  calls, the per-row callback of \<open>each\<close>, is modelled on its own below.
\<close>

datatype jsval =
    JUndefined
  | JNull
  | JBool bool
  | JNum string
  | JStr string
  | JArr "jsval list"
  | JObj string "(string \<times> jsval) list" "(string \<times> jsval) list"
  | JMap "(jsval \<times> jsval) list"

section \<open>The engine: connections, calls and replies\<close>

text \<open>
  The \<open>sqlite3.Database\<close> object built by \<open>new sqlite3.Database(filename, mode, cb)\<close>.
\<close>

datatype conn = Conn string "int option"

text \<open>An error the engine passes as first argument of a callback.\<close>

datatype engine_error = SqliteError string

text \<open>
  What the statement callback of \<open>run\<close> sees as \<open>this\<close>.
\<close>

record run_result =
  lastID :: int
  changes :: int

text \<open>
  The calls the wrapper issues to the engine, in the order it issues them. The callbacks
  passed along are not part of the log: what they do when the engine fires them is
  modelled by the operations below.
\<close>

datatype call =
    OpenCall string "int option"
  | CloseCall conn
  | RunCall conn string jsval
  | GetCall conn string jsval
  | AllCall conn string jsval
  | EachCall conn string jsval
  | ExecCall conn string

text \<open>
  The engine answers a call by firing its callback with \<open>(err, value)\<close>:
  \<open>Some (Inl err)\<close> when \<open>err\<close> is set, \<open>Some (Inr v)\<close> otherwise, and \<open>None\<close> when the
  callback is never fired.
\<close>

type_synonym 'a reply = "(engine_error + 'a) option"

text \<open>
  The flags of the \<open>sqlite3\<close> package that the default mode of \<open>open\<close> is made of.
\<close>

definition OPEN_READWRITE :: int where
  "OPEN_READWRITE = 2"

definition OPEN_CREATE :: int where
  "OPEN_CREATE = 4"

section \<open>Promises\<close>

text \<open>
  What a promise can be rejected with: an error reported by the engine, the error made by
  \<open>error_dbNotOpened()\<close>, a \<open>TypeError\<close> made by the wrapper (with its message), a
  \<open>TypeError\<close> raised by the JavaScript runtime itself, a value thrown by the caller's
  per-row callback, and the object \<open>{ sql, error }\<close> thrown by the insertion builders.
\<close>

datatype failure =
    EngineError engine_error
  | DbNotOpened
  | UsageTypeError string
  | RuntimeTypeError
  | Thrown jsval
  | SqlError string failure

datatype 'a promise = Pending | Resolved 'a | Rejected failure

text \<open>
  \<open>resolve\<close> and \<open>reject\<close> settle a pending promise and do nothing to a settled one.
\<close>

definition resolve :: "'a \<Rightarrow> 'a promise \<Rightarrow> 'a promise" where
  "resolve v p = (case p of Pending \<Rightarrow> Resolved v | _ \<Rightarrow> p)"

definition reject :: "failure \<Rightarrow> 'a promise \<Rightarrow> 'a promise" where
  "reject e p = (case p of Pending \<Rightarrow> Rejected e | _ \<Rightarrow> p)"

text \<open>
  The callback every operation but \<open>each\<close> hands to the engine:
  \<open>function (err, v) { if (err) reject(err); else resolve(v); }\<close>.
\<close>

definition callback :: "engine_error + 'a \<Rightarrow> 'a promise \<Rightarrow> 'a promise" where
  "callback r p = (case r of Inl err \<Rightarrow> reject (EngineError err) p | Inr v \<Rightarrow> resolve v p)"

text \<open>The engine fires the callback with its reply, or never.\<close>

definition fire :: "'r option \<Rightarrow> ('r \<Rightarrow> 'p \<Rightarrow> 'p) \<Rightarrow> 'p \<Rightarrow> 'p" where
  "fire r cb p = (case r of None \<Rightarrow> p | Some x \<Rightarrow> cb x p)"

text \<open>
  What an operation leaves behind: the promise it returned, as the engine's reply has
  settled it, and the engine calls it issued.
\<close>

record 'a outcome =
  promise :: "'a promise"
  calls :: "call list"

text \<open>
  \<open>const p = params.length === 1 ? params[0] : params\<close>
\<close>

definition unwrap_params :: "jsval list \<Rightarrow> jsval" where
  "unwrap_params params = (if length params = 1 then params ! 0 else JArr params)"

section \<open>PromisedDatabase\<close>

record PromisedDatabase =
  p_db :: "conn option"

text \<open>\<open>constructor() { }\<close>: the field \<open>_db\<close> is undefined.\<close>

definition PromisedDatabase_new :: PromisedDatabase where
  "PromisedDatabase_new = \<lparr>p_db = None\<rparr>"

text \<open>
  \<open>open(filename, mode = sqlite3.OPEN_CREATE | sqlite3.OPEN_READWRITE)\<close>: the executor
  assigns \<open>this._db\<close> when it constructs the connection; the callback fires later.
\<close>

definition PromisedDatabase_open ::
  "PromisedDatabase \<Rightarrow> string \<Rightarrow> int option \<Rightarrow> unit reply \<Rightarrow> PromisedDatabase \<times> unit outcome" where
  "PromisedDatabase_open h filename mode r =
     (let m = (case mode of None \<Rightarrow> OPEN_CREATE OR OPEN_READWRITE | Some m \<Rightarrow> m)
      in (h\<lparr>p_db := Some (Conn filename (Some m))\<rparr>,
          \<lparr>promise = fire r callback Pending, calls = [OpenCall filename (Some m)]\<rparr>))"

text \<open>
  \<open>close()\<close>, the same in both variants of the class: \<open>if (!this._db) resolve(); else
  this._db.close(cb)\<close>. The field is left as it is.
\<close>

definition PromisedDatabase_close ::
  "PromisedDatabase \<Rightarrow> unit reply \<Rightarrow> PromisedDatabase \<times> unit outcome" where
  "PromisedDatabase_close h r =
     (case p_db h of
        None \<Rightarrow> (h, \<lparr>promise = resolve () Pending, calls = []\<rparr>)
      | Some d \<Rightarrow> (h, \<lparr>promise = fire r callback Pending, calls = [CloseCall d]\<rparr>))"

definition PromisedDatabase_run ::
  "PromisedDatabase \<Rightarrow> string \<Rightarrow> jsval list \<Rightarrow> run_result reply \<Rightarrow> run_result outcome" where
  "PromisedDatabase_run h sql params r =
     (case p_db h of
        None \<Rightarrow> \<lparr>promise = reject DbNotOpened Pending, calls = []\<rparr>
      | Some d \<Rightarrow>
          (let p = unwrap_params params
           in \<lparr>promise = fire r callback Pending, calls = [RunCall d sql p]\<rparr>))"

definition PromisedDatabase_get ::
  "PromisedDatabase \<Rightarrow> string \<Rightarrow> jsval list \<Rightarrow> jsval reply \<Rightarrow> jsval outcome" where
  "PromisedDatabase_get h sql params r =
     (case p_db h of
        None \<Rightarrow> \<lparr>promise = reject DbNotOpened Pending, calls = []\<rparr>
      | Some d \<Rightarrow>
          (let p = unwrap_params params
           in \<lparr>promise = fire r callback Pending, calls = [GetCall d sql p]\<rparr>))"

definition PromisedDatabase_all ::
  "PromisedDatabase \<Rightarrow> string \<Rightarrow> jsval list \<Rightarrow> jsval list reply \<Rightarrow> jsval list outcome" where
  "PromisedDatabase_all h sql params r =
     (case p_db h of
        None \<Rightarrow> \<lparr>promise = reject DbNotOpened Pending, calls = []\<rparr>
      | Some d \<Rightarrow>
          (let p = unwrap_params params
           in \<lparr>promise = fire r callback Pending, calls = [AllCall d sql p]\<rparr>))"

definition PromisedDatabase_exec ::
  "PromisedDatabase \<Rightarrow> string \<Rightarrow> unit reply \<Rightarrow> unit outcome" where
  "PromisedDatabase_exec h sql r =
     (case p_db h of
        None \<Rightarrow> \<lparr>promise = reject DbNotOpened Pending, calls = []\<rparr>
      | Some d \<Rightarrow> \<lparr>promise = fire r callback Pending, calls = [ExecCall d sql]\<rparr>)"

subsection \<open>The row-streaming operation\<close>

text \<open>
  The caller's per-row callback, run on its own state (whatever it closes over) and a
  row: it returns normally (\<open>None\<close>) or throws a value (\<open>Some e\<close>), and leaves a new
  state. The argument \<open>cb\<close> of \<open>each\<close> is such a function or some other value, one
  that is no function.
\<close>

type_synonym 's row_callback = "'s \<Rightarrow> jsval \<Rightarrow> jsval option \<times> 's"

datatype 's cb_arg = NotFunction jsval | IsFunction "'s \<Rightarrow> jsval \<Rightarrow> jsval option \<times> 's"

text \<open>
  The engine answers \<open>each\<close> by firing the row callback once per row it produces, in
  order, each time with an error or a row, and then the completion callback (or never).
\<close>

record each_reply =
  row_events :: "(engine_error + jsval) list"
  completion :: "int reply"

text \<open>
  Beside the promise and the engine calls, \<open>each\<close> leaves the rows its caller's callback
  was invoked on, in order, and the callback's last state.
\<close>

record 's each_outcome = "int outcome" +
  invoked :: "jsval list"
  cb_state :: 's

text \<open>
  The row callback handed to the engine:
  \<open>function (err, row) { if (err) reject(err); else { try { cb(row); } catch (e) { reject(e); } } }\<close>.
  Calling a \<open>cb\<close> that is no function raises a \<open>TypeError\<close> inside the \<open>try\<close>.
\<close>

definition each_row :: "'s cb_arg \<Rightarrow> engine_error + jsval \<Rightarrow> 's each_outcome \<Rightarrow> 's each_outcome" where
  "each_row cb ev st =
     (case ev of
        Inl err \<Rightarrow> st\<lparr>promise := reject (EngineError err) (promise st)\<rparr>
      | Inr row \<Rightarrow>
          (case cb of
             NotFunction _ \<Rightarrow> st\<lparr>promise := reject RuntimeTypeError (promise st)\<rparr>
           | IsFunction f \<Rightarrow>
               (case f (cb_state st) row of
                  (None, s') \<Rightarrow> st\<lparr>invoked := invoked st @ [row], cb_state := s'\<rparr>
                | (Some e, s') \<Rightarrow>
                    st\<lparr>invoked := invoked st @ [row], cb_state := s',
                       promise := reject (Thrown e) (promise st)\<rparr>)))"

text \<open>
  The completion callback: \<open>function (err, count) { if (err) reject(err); else resolve(count); }\<close>.
\<close>

definition each_complete :: "engine_error + int \<Rightarrow> 's each_outcome \<Rightarrow> 's each_outcome" where
  "each_complete r st = st\<lparr>promise := callback r (promise st)\<rparr>"

definition engine_each :: "'s cb_arg \<Rightarrow> each_reply \<Rightarrow> 's each_outcome \<Rightarrow> 's each_outcome" where
  "engine_each cb r st = fire (completion r) each_complete (fold (each_row cb) (row_events r) st)"

text \<open>
  \<open>each(sql, params, cb)\<close> of the later variant. Neither \<open>reject\<close> of the executor
  returns from it: the test of \<open>this._db\<close> runs after the test of \<open>cb\<close> in every case.
\<close>

definition PromisedDatabase_each ::
  "PromisedDatabase \<Rightarrow> string \<Rightarrow> jsval \<Rightarrow> 's cb_arg \<Rightarrow> 's \<Rightarrow> each_reply \<Rightarrow> 's each_outcome" where
  "PromisedDatabase_each h sql params cb s r =
     (let p0 = (case cb of
                  NotFunction _ \<Rightarrow> reject (UsageTypeError ''cb must be a Function.'') Pending
                | IsFunction _ \<Rightarrow> Pending)
      in case p_db h of
           None \<Rightarrow> \<lparr>promise = reject DbNotOpened p0, calls = [], invoked = [], cb_state = s\<rparr>
         | Some d \<Rightarrow>
             engine_each cb r
               \<lparr>promise = p0, calls = [EachCall d sql params], invoked = [], cb_state = s\<rparr>)"

text \<open>
  \<open>each(sql, ...params)\<close> of the earlier variant, the callback being the last argument.
  The argument list is \<open>vals\<close> followed by the function \<open>fn\<close> when there is one, so a
  function occurs at the last position only. \<open>params.pop()\<close> takes the last argument
  (undefined when there is none) and leaves the others as the parameters.
\<close>

definition PromisedDatabase_each_variadic ::
  "PromisedDatabase \<Rightarrow> string \<Rightarrow> jsval list \<Rightarrow> 's row_callback option \<Rightarrow> 's \<Rightarrow> each_reply \<Rightarrow>
   's each_outcome" where
  "PromisedDatabase_each_variadic h sql vals fn s r =
     (let n = length vals + (case fn of None \<Rightarrow> 0 | Some _ \<Rightarrow> 1);
          p0 = (if n = 0 then reject (UsageTypeError ''Missing argument : callback'') Pending
                else Pending);
          cb = (case fn of
                  Some f \<Rightarrow> IsFunction f
                | None \<Rightarrow> NotFunction (if vals = [] then JUndefined else last vals));
          params = (case fn of Some _ \<Rightarrow> vals | None \<Rightarrow> butlast vals);
          p1 = (case cb of
                  NotFunction _ \<Rightarrow> reject (UsageTypeError ''Missing argument : callback'') p0
                | IsFunction _ \<Rightarrow> p0)
      in case p_db h of
           None \<Rightarrow> \<lparr>promise = reject DbNotOpened p1, calls = [], invoked = [], cb_state = s\<rparr>
         | Some d \<Rightarrow>
             (let p = unwrap_params params
              in engine_each cb r
                   \<lparr>promise = p1, calls = [EachCall d sql p], invoked = [], cb_state = s\<rparr>))"

section \<open>AsyncDatabase\<close>

text \<open>
  \<open>constructor(private db: sqlite3.Database)\<close>: the handle always wraps a connection.
\<close>

record AsyncDatabase =
  a_db :: conn

text \<open>
  \<open>static open(filename, mode?)\<close> resolves with a handle around the connection it built.
\<close>

definition AsyncDatabase_open :: "string \<Rightarrow> int option \<Rightarrow> unit reply \<Rightarrow> AsyncDatabase outcome" where
  "AsyncDatabase_open filename mode r =
     \<lparr>promise = fire r (\<lambda>x. callback (map_sum id (\<lambda>_. \<lparr>a_db = Conn filename mode\<rparr>) x)) Pending,
      calls = [OpenCall filename mode]\<rparr>"

definition AsyncDatabase_close :: "AsyncDatabase \<Rightarrow> unit reply \<Rightarrow> unit outcome" where
  "AsyncDatabase_close h r = \<lparr>promise = fire r callback Pending, calls = [CloseCall (a_db h)]\<rparr>"

definition AsyncDatabase_run ::
  "AsyncDatabase \<Rightarrow> string \<Rightarrow> jsval list \<Rightarrow> run_result reply \<Rightarrow> run_result outcome" where
  "AsyncDatabase_run h sql params r =
     (let p = unwrap_params params
      in \<lparr>promise = fire r callback Pending, calls = [RunCall (a_db h) sql p]\<rparr>)"

definition AsyncDatabase_get ::
  "AsyncDatabase \<Rightarrow> string \<Rightarrow> jsval list \<Rightarrow> jsval reply \<Rightarrow> jsval outcome" where
  "AsyncDatabase_get h sql params r =
     (let p = unwrap_params params
      in \<lparr>promise = fire r callback Pending, calls = [GetCall (a_db h) sql p]\<rparr>)"

definition AsyncDatabase_all ::
  "AsyncDatabase \<Rightarrow> string \<Rightarrow> jsval list \<Rightarrow> jsval list reply \<Rightarrow> jsval list outcome" where
  "AsyncDatabase_all h sql params r =
     (let p = unwrap_params params
      in \<lparr>promise = fire r callback Pending, calls = [AllCall (a_db h) sql p]\<rparr>)"

text \<open>
  \<open>each(sql, params, callback)\<close>: the callback is a function by its type, and nothing
  is tested before the engine is called.
\<close>

definition AsyncDatabase_each ::
  "AsyncDatabase \<Rightarrow> string \<Rightarrow> jsval \<Rightarrow> 's row_callback \<Rightarrow> 's \<Rightarrow> each_reply \<Rightarrow> 's each_outcome" where
  "AsyncDatabase_each h sql params cb s r =
     engine_each (IsFunction cb) r
       \<lparr>promise = Pending, calls = [EachCall (a_db h) sql params], invoked = [], cb_state = s\<rparr>"

definition AsyncDatabase_exec :: "AsyncDatabase \<Rightarrow> string \<Rightarrow> unit reply \<Rightarrow> unit outcome" where
  "AsyncDatabase_exec h sql r = \<lparr>promise = fire r callback Pending, calls = [ExecCall (a_db h) sql]\<rparr>"

section \<open>The insertion builders\<close>

subsection \<open>Text of values\<close>

definition digit_char :: "nat \<Rightarrow> char" where
  "digit_char d = ''0123456789'' ! d"

fun show_nat :: "nat \<Rightarrow> string" where
  "show_nat n = (if n < 10 then [digit_char n] else show_nat (n div 10) @ [digit_char (n mod 10)])"

declare show_nat.simps [simp del]

fun join_strings :: "string \<Rightarrow> string list \<Rightarrow> string" where
  "join_strings sep [] = []"
| "join_strings sep [x] = x"
| "join_strings sep (x # y # ys) = x @ sep @ join_strings sep (y # ys)"

text \<open>
  The default textual representation of a value (what a template literal and
  \<open>String(v)\<close> give). A number and an object carry theirs. An array is its elements
  joined by commas, where \<open>join\<close> writes an undefined or null element as the empty
  string.
\<close>

fun js_to_string :: "jsval \<Rightarrow> string" where
  "js_to_string JUndefined = ''undefined''"
| "js_to_string JNull = ''null''"
| "js_to_string (JBool b) = (if b then ''true'' else ''false'')"
| "js_to_string (JNum n) = n"
| "js_to_string (JStr s) = s"
| "js_to_string (JArr xs) =
     join_strings '',''
       (map (\<lambda>x. if x = JUndefined \<or> x = JNull then [] else js_to_string x) xs)"
| "js_to_string (JObj text own others) = text"
| "js_to_string (JMap kvs) = ''[object Map]''"

text \<open>\<open>xs.join(sep)\<close>\<close>

definition js_join :: "string \<Rightarrow> jsval list \<Rightarrow> string" where
  "js_join sep xs =
     join_strings sep (map (\<lambda>x. if x = JUndefined \<or> x = JNull then [] else js_to_string x) xs)"

subsection \<open>Keys and properties\<close>

text \<open>
  \<open>Object.keys(ob)\<close>, the own enumerable properties: it throws on undefined and null;
  a string and an array have their indices as keys, a number and a boolean none, and a
  Map has no such property.
\<close>

fun object_keys :: "jsval \<Rightarrow> failure + string list" where
  "object_keys JUndefined = Inl RuntimeTypeError"
| "object_keys JNull = Inl RuntimeTypeError"
| "object_keys (JBool b) = Inr []"
| "object_keys (JNum n) = Inr []"
| "object_keys (JStr s) = Inr (map show_nat [0..<length s])"
| "object_keys (JArr xs) = Inr (map show_nat [0..<length xs])"
| "object_keys (JObj text own others) = Inr (map fst own)"
| "object_keys (JMap kvs) = Inr []"

text \<open>The value stored under a key, undefined when there is none.\<close>

definition lookup :: "('k \<times> jsval) list \<Rightarrow> 'k \<Rightarrow> jsval" where
  "lookup kvs k = (case map_of kvs k of None \<Rightarrow> JUndefined | Some v \<Rightarrow> v)"

text \<open>
  The own properties of a string and of an array: the elements under their indices, and
  \<open>length\<close>.
\<close>

definition index_get :: "jsval list \<Rightarrow> string \<Rightarrow> jsval option" where
  "index_get xs k =
     (case find (\<lambda>i. show_nat i = k) [0..<length xs] of
        Some i \<Rightarrow> Some (xs ! i)
      | None \<Rightarrow> if k = ''length'' then Some (JNum (show_nat (length xs))) else None)"

text \<open>
  \<open>ob[k]\<close> for a property name \<open>k\<close>: it throws on undefined and null, and on any other
  value it reads the value's own property of that name or else walks the prototype
  chain. An object carries what its chain gives. A primitive, an array and a Map have
  the prototype the runtime gives their kind: \<open>proto v k\<close> is what the chain of \<open>v\<close>
  gives for \<open>k\<close>, undefined when nothing, and is a parameter.
\<close>

fun property_get :: "(jsval \<Rightarrow> string \<Rightarrow> jsval) \<Rightarrow> jsval \<Rightarrow> string \<Rightarrow> failure + jsval" where
  "property_get proto JUndefined k = Inl RuntimeTypeError"
| "property_get proto JNull k = Inl RuntimeTypeError"
| "property_get proto (JBool b) k = Inr (proto (JBool b) k)"
| "property_get proto (JNum n) k = Inr (proto (JNum n) k)"
| "property_get proto (JStr s) k =
     Inr (case index_get (map (\<lambda>c. JStr [c]) s) k of
            Some v \<Rightarrow> v
          | None \<Rightarrow> proto (JStr s) k)"
| "property_get proto (JArr xs) k =
     Inr (case index_get xs k of Some v \<Rightarrow> v | None \<Rightarrow> proto (JArr xs) k)"
| "property_get proto (JObj text own others) k =
     Inr (case map_of own k of Some v \<Rightarrow> v | None \<Rightarrow> lookup others k)"
| "property_get proto (JMap entries) k = Inr (proto (JMap entries) k)"

text \<open>\<open>xs.map(f)\<close> for an \<open>f\<close> that may throw: the first throw ends the traversal.\<close>

fun map_throwing :: "('a \<Rightarrow> failure + 'b) \<Rightarrow> 'a list \<Rightarrow> failure + 'b list" where
  "map_throwing f [] = Inr []"
| "map_throwing f (x # xs) =
     (case f x of
        Inl e \<Rightarrow> Inl e
      | Inr y \<Rightarrow> (case map_throwing f xs of Inl e \<Rightarrow> Inl e | Inr ys \<Rightarrow> Inr (y # ys)))"

subsection \<open>The helpers\<close>

definition sqlifyValue :: "jsval \<Rightarrow> jsval" where
  "sqlifyValue ob =
     (case ob of
        JUndefined \<Rightarrow> JStr ''NULL''
      | JNull \<Rightarrow> JStr ''NULL''
      | JStr s \<Rightarrow> JStr ([CHR 0x22] @ s @ [CHR 0x22])
      | _ \<Rightarrow> ob)"

text \<open>
  \<open>getKeysValues(o, keys?)\<close> returns \<open>{ keys, values }\<close>, here a pair. An array of keys
  is truthy even when empty, so \<open>keys || ...\<close> takes the second operand only when no
  keys are given.
\<close>

definition getKeysValues ::
  "(jsval \<Rightarrow> string \<Rightarrow> jsval) \<Rightarrow> jsval \<Rightarrow> jsval list option \<Rightarrow>
   failure + (jsval list \<times> jsval list)" where
  "getKeysValues proto ob keys =
     (case ob of
        JMap entries \<Rightarrow>
          (let keys = (case keys of Some ks \<Rightarrow> ks | None \<Rightarrow> map fst entries);
               values = map (lookup entries) keys
           in Inr (keys, values))
      | _ \<Rightarrow>
          (case (case keys of
                   Some ks \<Rightarrow> Inr ks
                 | None \<Rightarrow> map_sum id (map JStr) (object_keys ob)) of
             Inl e \<Rightarrow> Inl e
           | Inr keys \<Rightarrow>
               (case map_throwing (\<lambda>k. property_get proto ob (js_to_string k)) keys of
                  Inl e \<Rightarrow> Inl e
                | Inr values \<Rightarrow> Inr (keys, values))))"

definition sqlInsertParseObject :: "(jsval \<Rightarrow> string \<Rightarrow> jsval) \<Rightarrow> jsval \<Rightarrow> failure + string" where
  "sqlInsertParseObject proto row =
     (case row of
        JArr xs \<Rightarrow>
          (let colNames = []; values = map sqlifyValue xs
           in Inr (colNames @ '' VALUES ('' @ js_join '','' values @ '')''))
      | _ \<Rightarrow>
          (case getKeysValues proto row None of
             Inl e \<Rightarrow> Inl e
           | Inr (keys, kv_values) \<Rightarrow>
               (let colNames = ''('' @ js_join '','' keys @ '')'';
                    values = map sqlifyValue kv_values
                in Inr (colNames @ '' VALUES ('' @ js_join '','' values @ '')''))))"

subsection \<open>insert, replace, insertMany\<close>

text \<open>
  \<open>try { return await this.run(sql); } catch (error) { throw { sql, error }; }\<close>
\<close>

definition run_wrapping_error :: "string \<Rightarrow> 'a outcome \<Rightarrow> 'a outcome" where
  "run_wrapping_error sql r =
     (case promise r of
        Rejected error \<Rightarrow> r\<lparr>promise := Rejected (SqlError sql error)\<rparr>
      | _ \<Rightarrow> r)"

text \<open>
  The statement text is built before the \<open>try\<close>: a throw there rejects the promise of
  the async function as it is, and nothing is run.
\<close>

definition PromisedDatabase_insert ::
  "(jsval \<Rightarrow> string \<Rightarrow> jsval) \<Rightarrow> PromisedDatabase \<Rightarrow> string \<Rightarrow> jsval \<Rightarrow> run_result reply \<Rightarrow>
   run_result outcome" where
  "PromisedDatabase_insert proto h tableName row r =
     (case sqlInsertParseObject proto row of
        Inl e \<Rightarrow> \<lparr>promise = Rejected e, calls = []\<rparr>
      | Inr parsed \<Rightarrow>
          (let sql = ''INSERT INTO '' @ tableName @ '' '' @ parsed
           in run_wrapping_error sql (PromisedDatabase_run h sql [] r)))"

definition PromisedDatabase_replace ::
  "(jsval \<Rightarrow> string \<Rightarrow> jsval) \<Rightarrow> PromisedDatabase \<Rightarrow> string \<Rightarrow> jsval \<Rightarrow> run_result reply \<Rightarrow>
   run_result outcome" where
  "PromisedDatabase_replace proto h tableName row r =
     (case sqlInsertParseObject proto row of
        Inl e \<Rightarrow> \<lparr>promise = Rejected e, calls = []\<rparr>
      | Inr parsed \<Rightarrow>
          (let sql = ''REPLACE INTO '' @ tableName @ '' '' @ parsed
           in run_wrapping_error sql (PromisedDatabase_run h sql [] r)))"

text \<open>
  The loop of \<open>insertMany\<close> over the rows, \<open>values\<close> being the texts pushed so far.
\<close>

fun insertMany_loop ::
  "(jsval \<Rightarrow> string \<Rightarrow> jsval) \<Rightarrow> jsval list option \<Rightarrow> jsval list \<Rightarrow> string list \<Rightarrow>
   failure + string list" where
  "insertMany_loop proto columnNames [] values = Inr values"
| "insertMany_loop proto columnNames (row # rows) values =
     (case (case row of
              JArr xs \<Rightarrow> Inr xs
            | _ \<Rightarrow> map_sum id snd (getKeysValues proto row columnNames)) of
        Inl e \<Rightarrow> Inl e
      | Inr row' \<Rightarrow>
          insertMany_loop proto columnNames rows
            (values @ [''('' @ js_join '','' (map sqlifyValue row') @ '')'']))"

definition PromisedDatabase_insertMany ::
  "(jsval \<Rightarrow> string \<Rightarrow> jsval) \<Rightarrow> PromisedDatabase \<Rightarrow> string \<Rightarrow> string list option \<Rightarrow> jsval list \<Rightarrow>
   run_result reply \<Rightarrow> run_result outcome" where
  "PromisedDatabase_insertMany proto h tableName columnNames rows r =
     (let (colNames, columnNames') =
            (case columnNames of
               Some cs \<Rightarrow>
                 if length cs \<noteq> 0 then (''('' @ join_strings '','' cs @ '')'', Some (map JStr cs))
                 else ([], None)
             | None \<Rightarrow> ([], None))
      in case insertMany_loop proto columnNames' rows [] of
           Inl e \<Rightarrow> \<lparr>promise = Rejected e, calls = []\<rparr>
         | Inr values \<Rightarrow>
             (let sql = ''INSERT INTO '' @ tableName @ '' '' @ colNames @ '' VALUES ''
                        @ join_strings '','' values
              in run_wrapping_error sql (PromisedDatabase_run h sql [] r)))"

section \<open>Notions used in the statements\<close>

text \<open>The rows among the row events of a reply, in order.\<close>

fun delivered_rows :: "(engine_error + jsval) list \<Rightarrow> jsval list" where
  "delivered_rows [] = []"
| "delivered_rows (Inl err # evs) = delivered_rows evs"
| "delivered_rows (Inr row # evs) = row # delivered_rows evs"

text \<open>Two callbacks: one throws on every row, one throws the row of its second call.\<close>

definition always_throws :: "unit \<Rightarrow> jsval \<Rightarrow> jsval option \<times> unit" where
  "always_throws s row = (Some (JStr ''boom''), s)"

definition throws_on_second :: "nat \<Rightarrow> jsval \<Rightarrow> jsval option \<times> nat" where
  "throws_on_second n row = (if n = 1 then Some row else None, n + 1)"

text \<open>
  Three handles: one opened with success, one opened and then closed, and one whose
  \<open>open\<close> was rejected by the engine.
\<close>

definition opened :: PromisedDatabase where
  "opened = fst (PromisedDatabase_open PromisedDatabase_new ''db.sqlite'' None (Some (Inr ())))"

definition opened_then_closed :: PromisedDatabase where
  "opened_then_closed =
     fst (PromisedDatabase_close
            (fst (PromisedDatabase_open PromisedDatabase_new ''db.sqlite'' None (Some (Inr ()))))
            (Some (Inr ())))"

definition open_failed :: PromisedDatabase where
  "open_failed =
     fst (PromisedDatabase_open PromisedDatabase_new ''/no/such/dir/db.sqlite'' None
            (Some (Inl (SqliteError ''SQLITE_CANTOPEN''))))"

text \<open>
  A row of the insertion builders is an array or a key-value mapping (a Map or an
  object). The values \<open>insertMany\<close> is to take from a row for given column names: an
  array as it is; of a Map the values stored under the column names; of an object the
  values read under the column names, own property first, in the order of the names.
\<close>

fun is_row :: "jsval \<Rightarrow> bool" where
  "is_row (JArr xs) = True"
| "is_row (JObj text own others) = True"
| "is_row (JMap entries) = True"
| "is_row _ = False"

fun row_values :: "string list \<Rightarrow> jsval \<Rightarrow> jsval list" where
  "row_values cols (JArr xs) = xs"
| "row_values cols (JObj text own others) =
     map (\<lambda>c. case map_of own c of Some v \<Rightarrow> v | None \<Rightarrow> lookup others c) cols"
| "row_values cols (JMap entries) = map (\<lambda>c. lookup entries (JStr c)) cols"
| "row_values cols _ = []"

text \<open>
  For the examples: a built-in function, as Node writes it; what every plain object
  inherits from \<open>Object.prototype\<close>, whose own \<open>__proto__\<close> is null; the plain object
  with given own properties; and a runtime parameter, which the examples never consult,
  their rows being arrays, objects and Maps.
\<close>

definition native_function :: "string \<Rightarrow> jsval" where
  "native_function name = JObj (''function '' @ name @ ''() { [native code] }'') [] []"

definition Object_prototype_methods :: "(string \<times> jsval) list" where
  "Object_prototype_methods =
     (''constructor'', native_function ''Object'') #
     map (\<lambda>name. (name, native_function name))
       [''__defineGetter__'', ''__defineSetter__'', ''hasOwnProperty'', ''__lookupGetter__'',
        ''__lookupSetter__'', ''isPrototypeOf'', ''propertyIsEnumerable'', ''toString'',
        ''valueOf'', ''toLocaleString'']"

definition plain_object :: "(string \<times> jsval) list \<Rightarrow> jsval" where
  "plain_object own =
     JObj ''[object Object]'' own
       (Object_prototype_methods @
        [(''__proto__'',
          JObj ''[object Object]'' [] (Object_prototype_methods @ [(''__proto__'', JNull)]))])"

definition sample_proto :: "jsval \<Rightarrow> string \<Rightarrow> jsval" where
  "sample_proto v k = (if k = ''toString'' then native_function ''toString'' else JUndefined)"

section \<open>Settling and the row-streaming loop\<close>

lemmas op_defs = PromisedDatabase_run_def PromisedDatabase_get_def PromisedDatabase_all_def
  PromisedDatabase_exec_def AsyncDatabase_run_def AsyncDatabase_get_def AsyncDatabase_all_def
  AsyncDatabase_exec_def

lemma reject_settled [simp]: "reject e (Rejected x) = Rejected x" "reject e (Resolved v) = Resolved v"
  "reject e Pending = Rejected e"
  by (simp_all add: reject_def)

lemma resolve_settled [simp]: "resolve v (Rejected x) = Rejected x" "resolve v (Resolved w) = Resolved w"
  "resolve v Pending = Resolved v"
  by (simp_all add: resolve_def)

lemma each_row_calls [simp]: "calls (each_row cb ev st) = calls st"
  by (simp add: each_row_def split: sum.splits cb_arg.splits prod.splits option.splits)

lemma each_row_rejected: "promise st = Rejected x \<Longrightarrow> promise (each_row cb ev st) = Rejected x"
  by (simp add: each_row_def split: sum.splits cb_arg.splits prod.splits option.splits)

lemma fold_each_row_calls [simp]: "calls (fold (each_row cb) evs st) = calls st"
  by (induction evs arbitrary: st) simp_all

lemma fold_each_row_rejected:
  "promise st = Rejected x \<Longrightarrow> promise (fold (each_row cb) evs st) = Rejected x"
  by (induction evs arbitrary: st) (simp_all add: each_row_rejected)

lemma each_row_invoked_error: "invoked (each_row cb (Inl err) st) = invoked st"
  by (simp add: each_row_def)

lemma each_row_invoked_row:
  "invoked (each_row (IsFunction f) (Inr row) st) = invoked st @ [row]"
  by (simp add: each_row_def split: prod.splits option.splits)

lemma fold_each_row_invoked:
  "invoked (fold (each_row (IsFunction f)) evs st) = invoked st @ delivered_rows evs"
proof (induction evs arbitrary: st)
  case Nil
  then show ?case by simp
next
  case (Cons ev evs)
  show ?case
  proof (cases ev)
    case (Inl err)
    then show ?thesis by (simp add: Cons.IH each_row_invoked_error)
  next
    case (Inr row)
    then show ?thesis by (simp add: Cons.IH each_row_invoked_row)
  qed
qed

lemma each_row_throw:
  "promise st = Pending \<Longrightarrow> fst (f (cb_state st) row) = Some e \<Longrightarrow>
     promise (each_row (IsFunction f) (Inr row) st) = Rejected (Thrown e)"
  by (cases "f (cb_state st) row") (simp add: each_row_def)

lemma each_row_not_function_invoked: "invoked (each_row (NotFunction v) ev st) = invoked st"
  by (simp add: each_row_def split: sum.splits)

lemma fold_each_row_not_function_invoked:
  "invoked (fold (each_row (NotFunction v)) evs st) = invoked st"
  by (induction evs arbitrary: st) (simp_all add: each_row_not_function_invoked)

lemma engine_each_calls [simp]: "calls (engine_each cb r st) = calls st"
  by (simp add: engine_each_def fire_def each_complete_def split: option.splits)

lemma engine_each_invoked:
  "invoked (engine_each cb r st) = invoked (fold (each_row cb) (row_events r) st)"
  by (simp add: engine_each_def fire_def each_complete_def split: option.splits)

lemma engine_each_rejected:
  "promise st = Rejected x \<Longrightarrow> promise (engine_each cb r st) = Rejected x"
  by (simp add: engine_each_def fire_def each_complete_def callback_def fold_each_row_rejected
      split: option.splits sum.splits)

lemma engine_each_promise:
  "promise (engine_each cb r st) =
     (case completion r of
        None \<Rightarrow> promise (fold (each_row cb) (row_events r) st)
      | Some c \<Rightarrow> callback c (promise (fold (each_row cb) (row_events r) st)))"
  by (simp add: engine_each_def fire_def each_complete_def split: option.splits)

lemma engine_each_not_function_invoked:
  "invoked (engine_each (NotFunction v) r st) = invoked st"
  by (simp add: engine_each_invoked fold_each_row_not_function_invoked)

lemma callback_not_DbNotOpened: "p \<noteq> Rejected DbNotOpened \<Longrightarrow> callback x p \<noteq> Rejected DbNotOpened"
  by (cases p; cases x; simp add: callback_def)

lemma fire_callback_not_DbNotOpened: "fire r callback Pending \<noteq> Rejected DbNotOpened"
  by (cases r) (simp_all add: fire_def callback_not_DbNotOpened)

lemma each_row_not_DbNotOpened:
  "promise st \<noteq> Rejected DbNotOpened \<Longrightarrow> promise (each_row cb ev st) \<noteq> Rejected DbNotOpened"
  by (cases "promise st") (auto simp add: each_row_def split: sum.splits cb_arg.splits prod.splits option.splits)

lemma fold_each_row_not_DbNotOpened:
  "promise st \<noteq> Rejected DbNotOpened \<Longrightarrow>
     promise (fold (each_row cb) evs st) \<noteq> Rejected DbNotOpened"
  by (induction evs arbitrary: st) (simp_all add: each_row_not_DbNotOpened)

lemma engine_each_not_DbNotOpened:
  "promise st \<noteq> Rejected DbNotOpened \<Longrightarrow> promise (engine_each cb r st) \<noteq> Rejected DbNotOpened"
  by (simp add: engine_each_promise fold_each_row_not_DbNotOpened callback_not_DbNotOpened
      split: option.splits)

section \<open>Parameter forwarding\<close>

lemma unwrap_params_cases:
  "unwrap_params params = (case params of [x] \<Rightarrow> x | _ \<Rightarrow> JArr params)"
  by (cases params rule: list.exhaust; simp add: unwrap_params_def split: list.splits)

text \<open>
  C1. \<open>run\<close>, \<open>get\<close> and \<open>all\<close> of AsyncDatabase, and of PromisedDatabase on a handle
  that has a connection, issue one engine call; its parameter is the single parameter
  argument itself when exactly one is given, and the array of the arguments, in order,
  when none or several are given.
\<close>

theorem forwarded_parameters:
  assumes "p_db h = Some d"
  shows "calls (AsyncDatabase_run a sql params r1) =
           [RunCall (a_db a) sql (case params of [x] \<Rightarrow> x | _ \<Rightarrow> JArr params)] \<and>
         calls (AsyncDatabase_get a sql params r2) =
           [GetCall (a_db a) sql (case params of [x] \<Rightarrow> x | _ \<Rightarrow> JArr params)] \<and>
         calls (AsyncDatabase_all a sql params r3) =
           [AllCall (a_db a) sql (case params of [x] \<Rightarrow> x | _ \<Rightarrow> JArr params)] \<and>
         calls (PromisedDatabase_run h sql params r1) =
           [RunCall d sql (case params of [x] \<Rightarrow> x | _ \<Rightarrow> JArr params)] \<and>
         calls (PromisedDatabase_get h sql params r2) =
           [GetCall d sql (case params of [x] \<Rightarrow> x | _ \<Rightarrow> JArr params)] \<and>
         calls (PromisedDatabase_all h sql params r3) =
           [AllCall d sql (case params of [x] \<Rightarrow> x | _ \<Rightarrow> JArr params)]"
  using assms by (simp add: op_defs unwrap_params_cases)

theorem forwarded_parameters_witness:
  "p_db \<lparr>p_db = Some (Conn ''db.sqlite'' None)\<rparr> = Some (Conn ''db.sqlite'' None) \<and>
   calls (AsyncDatabase_run \<lparr>a_db = Conn ''db.sqlite'' None\<rparr> ''INSERT INTO foo (a, b) VALUES (?, ?)''
            [JArr [JStr ''Value of a'', JStr ''Value of b'']] None) =
     [RunCall (Conn ''db.sqlite'' None) ''INSERT INTO foo (a, b) VALUES (?, ?)''
        (JArr [JStr ''Value of a'', JStr ''Value of b''])] \<and>
   calls (PromisedDatabase_run \<lparr>p_db = Some (Conn ''db.sqlite'' None)\<rparr> ''INSERT INTO foo (a, b) VALUES (?, ?)''
            [JStr ''alpha'', JStr ''beta''] None) =
     [RunCall (Conn ''db.sqlite'' None) ''INSERT INTO foo (a, b) VALUES (?, ?)''
        (JArr [JStr ''alpha'', JStr ''beta''])] \<and>
   calls (PromisedDatabase_all \<lparr>p_db = Some (Conn ''db.sqlite'' None)\<rparr> ''SELECT * FROM foo'' [] None) =
     [AllCall (Conn ''db.sqlite'' None) ''SELECT * FROM foo'' (JArr [])]"
  using forwarded_parameters [of "\<lparr>p_db = Some (Conn ''db.sqlite'' None)\<rparr>" "Conn ''db.sqlite'' None"
      "\<lparr>a_db = Conn ''db.sqlite'' None\<rparr>" "''INSERT INTO foo (a, b) VALUES (?, ?)''"
      "[JArr [JStr ''Value of a'', JStr ''Value of b'']]" None None None]
    forwarded_parameters [of "\<lparr>p_db = Some (Conn ''db.sqlite'' None)\<rparr>" "Conn ''db.sqlite'' None"
      "\<lparr>a_db = Conn ''db.sqlite'' None\<rparr>" "''INSERT INTO foo (a, b) VALUES (?, ?)''"
      "[JStr ''alpha'', JStr ''beta'']" None None None]
    forwarded_parameters [of "\<lparr>p_db = Some (Conn ''db.sqlite'' None)\<rparr>" "Conn ''db.sqlite'' None"
      "\<lparr>a_db = Conn ''db.sqlite'' None\<rparr>" "''SELECT * FROM foo''" "[]" None None None]
  by simp

section \<open>A per-row callback that throws\<close>

text \<open>
  C2, as the code has it. Take \<open>each\<close> of AsyncDatabase, or of PromisedDatabase on a
  handle with a connection and with a function as callback (the two agree). If the
  callback throws on a row while the promise is still pending, that is, no earlier row
  event carried an engine error or made the callback throw, then the promise rejects
  with exactly the thrown value, whatever the engine delivers afterwards. The callback
  is invoked on every row the engine delivers, also on those after the throw.
\<close>

theorem each_first_throw_rejects:
  assumes "p_db h = Some (a_db a)"
    and "promise (AsyncDatabase_each a sql p cb s \<lparr>row_events = pre, completion = None\<rparr>) = Pending"
    and "fst (cb (cb_state (AsyncDatabase_each a sql p cb s \<lparr>row_events = pre, completion = None\<rparr>)) row)
           = Some e"
  shows "promise (AsyncDatabase_each a sql p cb s \<lparr>row_events = pre @ Inr row # post, completion = c\<rparr>)
           = Rejected (Thrown e) \<and>
         invoked (AsyncDatabase_each a sql p cb s \<lparr>row_events = pre @ Inr row # post, completion = c\<rparr>)
           = delivered_rows (pre @ Inr row # post) \<and>
         PromisedDatabase_each h sql p (IsFunction cb) s \<lparr>row_events = pre @ Inr row # post, completion = c\<rparr>
           = AsyncDatabase_each a sql p cb s \<lparr>row_events = pre @ Inr row # post, completion = c\<rparr>"
proof -
  let ?st0 = "\<lparr>promise = Pending, calls = [EachCall (a_db a) sql p], invoked = [], cb_state = s\<rparr>"
  let ?st1 = "fold (each_row (IsFunction cb)) pre ?st0"
  from assms(2) have pend: "promise ?st1 = Pending"
    by (simp add: AsyncDatabase_each_def engine_each_def fire_def)
  from assms(3) have thr: "fst (cb (cb_state ?st1) row) = Some e"
    by (simp add: AsyncDatabase_each_def engine_each_def fire_def)
  have "promise (each_row (IsFunction cb) (Inr row) ?st1) = Rejected (Thrown e)"
    using pend thr by (rule each_row_throw)
  then have "promise (fold (each_row (IsFunction cb)) (pre @ Inr row # post) ?st0) = Rejected (Thrown e)"
    by (simp add: fold_each_row_rejected)
  then have 1: "promise (AsyncDatabase_each a sql p cb s \<lparr>row_events = pre @ Inr row # post, completion = c\<rparr>)
           = Rejected (Thrown e)"
    by (simp add: AsyncDatabase_each_def engine_each_promise callback_def split: option.splits sum.splits)
  have 2: "invoked (AsyncDatabase_each a sql p cb s \<lparr>row_events = pre @ Inr row # post, completion = c\<rparr>)
           = delivered_rows (pre @ Inr row # post)"
    unfolding AsyncDatabase_each_def engine_each_invoked
    by (simp only: fold_each_row_invoked each_reply.simps each_outcome.simps append_Nil)
  have 3: "PromisedDatabase_each h sql p (IsFunction cb) s \<lparr>row_events = pre @ Inr row # post, completion = c\<rparr>
           = AsyncDatabase_each a sql p cb s \<lparr>row_events = pre @ Inr row # post, completion = c\<rparr>"
    using assms(1) by (simp add: PromisedDatabase_each_def AsyncDatabase_each_def)
  from 1 2 3 show ?thesis by blast
qed

theorem each_first_throw_rejects_witness:
  "promise (AsyncDatabase_each \<lparr>a_db = Conn ''db.sqlite'' None\<rparr> ''SELECT * FROM foo'' (JArr [])
      throws_on_second 0 \<lparr>row_events = [Inr (JNum ''1''), Inr (JNum ''2''), Inr (JNum ''3'')], completion = Some (Inr 3)\<rparr>)
     = Rejected (Thrown (JNum ''2'')) \<and>
   invoked (AsyncDatabase_each \<lparr>a_db = Conn ''db.sqlite'' None\<rparr> ''SELECT * FROM foo'' (JArr [])
      throws_on_second 0 \<lparr>row_events = [Inr (JNum ''1''), Inr (JNum ''2''), Inr (JNum ''3'')], completion = Some (Inr 3)\<rparr>)
     = [JNum ''1'', JNum ''2'', JNum ''3'']"
proof -
  let ?a = "\<lparr>a_db = Conn ''db.sqlite'' None\<rparr>"
  let ?h = "\<lparr>p_db = Some (Conn ''db.sqlite'' None)\<rparr>"
  let ?pre = "\<lparr>row_events = [Inr (JNum ''1'')], completion = None\<rparr>"
  have 1: "p_db ?h = Some (a_db ?a)" by simp
  have ev: "AsyncDatabase_each ?a ''SELECT * FROM foo'' (JArr []) throws_on_second 0 ?pre
      = \<lparr>promise = Pending, calls = [EachCall (Conn ''db.sqlite'' None) ''SELECT * FROM foo'' (JArr [])],
         invoked = [JNum ''1''], cb_state = 1\<rparr>"
    by (simp add: AsyncDatabase_each_def engine_each_def fire_def each_row_def throws_on_second_def)
  have 2: "promise (AsyncDatabase_each ?a ''SELECT * FROM foo'' (JArr []) throws_on_second 0 ?pre) = Pending"
    by (simp add: ev)
  have 3: "fst (throws_on_second (cb_state (AsyncDatabase_each ?a ''SELECT * FROM foo'' (JArr []) throws_on_second 0 ?pre)) (JNum ''2''))
      = Some (JNum ''2'')"
    by (simp add: ev throws_on_second_def)
  from each_first_throw_rejects [OF 1 2 3, of "[Inr (JNum ''3'')]" "Some (Inr 3)"]
  show ?thesis by simp
qed

text \<open>
  C2 as stated fails: a callback that throws on the first row is invoked again on the
  second row the engine delivers.
\<close>

theorem each_invokes_callback_after_throw:
  "fst (always_throws () (JNum ''1'')) = Some (JStr ''boom'') \<and>
   invoked (AsyncDatabase_each \<lparr>a_db = Conn ''db.sqlite'' None\<rparr> ''SELECT * FROM foo'' (JArr [])
      always_throws () \<lparr>row_events = [Inr (JNum ''1''), Inr (JNum ''2'')], completion = Some (Inr 2)\<rparr>)
     = [JNum ''1'', JNum ''2'']"
  by (simp add: AsyncDatabase_each_def engine_each_def fire_def each_complete_def each_row_def
      always_throws_def)

section \<open>Operating without a connection\<close>

text \<open>
  C3, as the code has it. In PromisedDatabase, on a handle whose connection field is
  unset (it was never opened: \<open>close\<close> does not unset the field), \<open>run\<close>, \<open>get\<close>,
  \<open>all\<close> and \<open>exec\<close>, and \<open>each\<close> when its callback is a function, reject with the
  error of \<open>error_dbNotOpened()\<close> whatever the engine would answer, issue no engine call
  and invoke no callback.
\<close>

theorem no_connection_rejects:
  assumes "p_db h = None"
  shows "PromisedDatabase_run h sql params r1 = \<lparr>promise = Rejected DbNotOpened, calls = []\<rparr> \<and>
         PromisedDatabase_get h sql params r2 = \<lparr>promise = Rejected DbNotOpened, calls = []\<rparr> \<and>
         PromisedDatabase_all h sql params r3 = \<lparr>promise = Rejected DbNotOpened, calls = []\<rparr> \<and>
         PromisedDatabase_exec h sql r4 = \<lparr>promise = Rejected DbNotOpened, calls = []\<rparr> \<and>
         PromisedDatabase_each h sql p (IsFunction cb) s r5 =
           \<lparr>promise = Rejected DbNotOpened, calls = [], invoked = [], cb_state = s\<rparr> \<and>
         PromisedDatabase_each_variadic h sql params (Some cb) s r5 =
           \<lparr>promise = Rejected DbNotOpened, calls = [], invoked = [], cb_state = s\<rparr>"
  using assms
  by (simp add: op_defs PromisedDatabase_each_def PromisedDatabase_each_variadic_def)

theorem no_connection_rejects_witness:
  "p_db PromisedDatabase_new = None \<and>
   PromisedDatabase_run PromisedDatabase_new ''SELECT 1'' [] (Some (Inr \<lparr>lastID = 0, changes = 0\<rparr>)) =
     \<lparr>promise = Rejected DbNotOpened, calls = []\<rparr> \<and>
   PromisedDatabase_exec PromisedDatabase_new ''SELECT 1'' None =
     \<lparr>promise = Rejected DbNotOpened, calls = []\<rparr> \<and>
   PromisedDatabase_each PromisedDatabase_new ''SELECT 1'' (JArr []) (IsFunction always_throws) ()
       \<lparr>row_events = [Inr (JNum ''1'')], completion = Some (Inr 1)\<rparr> =
     \<lparr>promise = Rejected DbNotOpened, calls = [], invoked = [], cb_state = ()\<rparr>"
  using no_connection_rejects [of PromisedDatabase_new "''SELECT 1''" "[]"
      "Some (Inr \<lparr>lastID = 0, changes = 0\<rparr>)" None None None "JArr []" always_throws "()"
      "\<lparr>row_events = [Inr (JNum ''1'')], completion = Some (Inr 1)\<rparr>"]
  by (simp add: PromisedDatabase_new_def)

text \<open>
  C3 as stated fails twice. On a handle that was opened and then closed, \<open>run\<close> is
  forwarded to the engine, and the promise carries the engine's answer. On a handle that
  was never opened, \<open>each\<close> of the variadic variant, called with the statement alone,
  rejects with the \<open>TypeError\<close>, which is raised first.
\<close>

theorem no_connection_counterexample:
  "PromisedDatabase_run opened_then_closed ''SELECT 1'' [] (Some (Inl (SqliteError ''SQLITE_MISUSE''))) =
     \<lparr>promise = Rejected (EngineError (SqliteError ''SQLITE_MISUSE'')),
      calls = [RunCall (Conn ''db.sqlite'' (Some 6)) ''SELECT 1'' (JArr [])]\<rparr> \<and>
   PromisedDatabase_each_variadic PromisedDatabase_new ''SELECT 1'' [] None ()
       \<lparr>row_events = [], completion = None\<rparr> =
     \<lparr>promise = Rejected (UsageTypeError ''Missing argument : callback''),
      calls = [], invoked = [], cb_state = ()\<rparr>"
  by (simp add: opened_then_closed_def PromisedDatabase_new_def PromisedDatabase_open_def
      PromisedDatabase_close_def PromisedDatabase_run_def PromisedDatabase_each_variadic_def
      unwrap_params_def OPEN_CREATE_def OPEN_READWRITE_def fire_def callback_def)

text \<open>
  The later variant does the same when its callback is no function, and AsyncDatabase
  forwards every call to the connection it was built around.
\<close>

lemma each_without_callback_never_opened:
  "PromisedDatabase_each PromisedDatabase_new sql p (NotFunction v) s r =
     \<lparr>promise = Rejected (UsageTypeError ''cb must be a Function.''), calls = [], invoked = [],
      cb_state = s\<rparr>"
  by (simp add: PromisedDatabase_each_def PromisedDatabase_new_def)

lemma AsyncDatabase_forwards:
  "calls (AsyncDatabase_run a sql params r1) = [RunCall (a_db a) sql (unwrap_params params)] \<and>
   promise (AsyncDatabase_run a sql params r1) \<noteq> Rejected DbNotOpened \<and>
   calls (AsyncDatabase_exec a sql r2) = [ExecCall (a_db a) sql] \<and>
   promise (AsyncDatabase_exec a sql r2) \<noteq> Rejected DbNotOpened"
  by (simp add: AsyncDatabase_run_def AsyncDatabase_exec_def fire_callback_not_DbNotOpened)

section \<open>each without a callback\<close>

text \<open>
  C4. On an opened handle, \<open>each\<close> called without a callback rejects with the
  \<open>TypeError\<close> and still issues the engine call, in both variants: the executor does
  not return after \<open>reject\<close>.
\<close>

theorem each_without_callback_calls_engine:
  "PromisedDatabase_each opened ''SELECT * FROM foo'' (JArr []) (NotFunction JUndefined) ()
       \<lparr>row_events = [Inr (JNum ''1'')], completion = Some (Inr 1)\<rparr> =
     \<lparr>promise = Rejected (UsageTypeError ''cb must be a Function.''),
      calls = [EachCall (Conn ''db.sqlite'' (Some 6)) ''SELECT * FROM foo'' (JArr [])],
      invoked = [], cb_state = ()\<rparr> \<and>
   PromisedDatabase_each_variadic opened ''SELECT * FROM foo'' [] None ()
       \<lparr>row_events = [Inr (JNum ''1'')], completion = Some (Inr 1)\<rparr> =
     \<lparr>promise = Rejected (UsageTypeError ''Missing argument : callback''),
      calls = [EachCall (Conn ''db.sqlite'' (Some 6)) ''SELECT * FROM foo'' (JArr [])],
      invoked = [], cb_state = ()\<rparr>"
  by (simp add: opened_def PromisedDatabase_new_def PromisedDatabase_open_def
      PromisedDatabase_each_def PromisedDatabase_each_variadic_def unwrap_params_def
      OPEN_CREATE_def OPEN_READWRITE_def engine_each_def fire_def each_complete_def each_row_def
      callback_def)

text \<open>The same for every handle with a connection and every value that is no function.\<close>

lemma each_not_function:
  "p_db h = Some d \<Longrightarrow>
   promise (PromisedDatabase_each h sql p (NotFunction v) s r) = Rejected (UsageTypeError ''cb must be a Function.'') \<and>
   calls (PromisedDatabase_each h sql p (NotFunction v) s r) = [EachCall d sql p] \<and>
   invoked (PromisedDatabase_each h sql p (NotFunction v) s r) = []"
  by (simp add: PromisedDatabase_each_def engine_each_rejected engine_each_not_function_invoked)

section \<open>A handle whose open was rejected\<close>

text \<open>
  C5. \<open>open\<close> of PromisedDatabase sets the connection field whatever the engine answers,
  and before it answers: the handle is the one left when the callback never fires. So on
  a handle whose \<open>open\<close> was rejected, \<open>run\<close>, \<open>get\<close>, \<open>all\<close>, \<open>each\<close> and \<open>exec\<close> are
  forwarded to the engine and never reject with the error of \<open>error_dbNotOpened()\<close>.
\<close>

theorem rejected_open_keeps_connection:
  assumes "promise (snd (PromisedDatabase_open h0 filename mode r)) = Rejected e"
    and "h = fst (PromisedDatabase_open h0 filename mode r)"
    and "d = Conn filename (Some (case mode of None \<Rightarrow> OPEN_CREATE OR OPEN_READWRITE | Some m \<Rightarrow> m))"
  shows "h = fst (PromisedDatabase_open h0 filename mode None) \<and>
         p_db h = Some d \<and>
         calls (PromisedDatabase_run h sql params r1) = [RunCall d sql (unwrap_params params)] \<and>
         promise (PromisedDatabase_run h sql params r1) \<noteq> Rejected DbNotOpened \<and>
         calls (PromisedDatabase_get h sql params r2) = [GetCall d sql (unwrap_params params)] \<and>
         promise (PromisedDatabase_get h sql params r2) \<noteq> Rejected DbNotOpened \<and>
         calls (PromisedDatabase_all h sql params r3) = [AllCall d sql (unwrap_params params)] \<and>
         promise (PromisedDatabase_all h sql params r3) \<noteq> Rejected DbNotOpened \<and>
         calls (PromisedDatabase_each h sql p cb s r4) = [EachCall d sql p] \<and>
         promise (PromisedDatabase_each h sql p cb s r4) \<noteq> Rejected DbNotOpened \<and>
         calls (PromisedDatabase_exec h sql r5) = [ExecCall d sql] \<and>
         promise (PromisedDatabase_exec h sql r5) \<noteq> Rejected DbNotOpened"
proof -
  have d: "p_db h = Some d"
    using assms(2,3) by (simp add: PromisedDatabase_open_def Let_def)
  have same: "h = fst (PromisedDatabase_open h0 filename mode None)"
    using assms(2) by (simp add: PromisedDatabase_open_def Let_def)
  have run: "calls (PromisedDatabase_run h sql params r1) = [RunCall d sql (unwrap_params params)]"
      "promise (PromisedDatabase_run h sql params r1) \<noteq> Rejected DbNotOpened"
    using d by (simp_all add: PromisedDatabase_run_def fire_callback_not_DbNotOpened)
  have get: "calls (PromisedDatabase_get h sql params r2) = [GetCall d sql (unwrap_params params)]"
      "promise (PromisedDatabase_get h sql params r2) \<noteq> Rejected DbNotOpened"
    using d by (simp_all add: PromisedDatabase_get_def fire_callback_not_DbNotOpened)
  have all: "calls (PromisedDatabase_all h sql params r3) = [AllCall d sql (unwrap_params params)]"
      "promise (PromisedDatabase_all h sql params r3) \<noteq> Rejected DbNotOpened"
    using d by (simp_all add: PromisedDatabase_all_def fire_callback_not_DbNotOpened)
  have exec: "calls (PromisedDatabase_exec h sql r5) = [ExecCall d sql]"
      "promise (PromisedDatabase_exec h sql r5) \<noteq> Rejected DbNotOpened"
    using d by (simp_all add: PromisedDatabase_exec_def fire_callback_not_DbNotOpened)
  have each: "calls (PromisedDatabase_each h sql p cb s r4) = [EachCall d sql p]"
      "promise (PromisedDatabase_each h sql p cb s r4) \<noteq> Rejected DbNotOpened"
    using d by (simp_all add: PromisedDatabase_each_def engine_each_not_DbNotOpened split: cb_arg.splits)
  from d same run get all exec each show ?thesis by blast
qed

theorem rejected_open_keeps_connection_witness:
  "promise (snd (PromisedDatabase_open PromisedDatabase_new ''/no/such/dir/db.sqlite'' None
      (Some (Inl (SqliteError ''SQLITE_CANTOPEN''))))) = Rejected (EngineError (SqliteError ''SQLITE_CANTOPEN'')) \<and>
   p_db open_failed = Some (Conn ''/no/such/dir/db.sqlite'' (Some 6)) \<and>
   calls (PromisedDatabase_run open_failed ''SELECT 1'' [] (Some (Inl (SqliteError ''SQLITE_MISUSE'')))) =
     [RunCall (Conn ''/no/such/dir/db.sqlite'' (Some 6)) ''SELECT 1'' (JArr [])] \<and>
   promise (PromisedDatabase_run open_failed ''SELECT 1'' [] (Some (Inl (SqliteError ''SQLITE_MISUSE'')))) \<noteq>
     Rejected DbNotOpened"
proof -
  have 1: "promise (snd (PromisedDatabase_open PromisedDatabase_new ''/no/such/dir/db.sqlite'' None
      (Some (Inl (SqliteError ''SQLITE_CANTOPEN''))))) = Rejected (EngineError (SqliteError ''SQLITE_CANTOPEN''))"
    by (simp add: PromisedDatabase_open_def Let_def fire_def callback_def)
  have 2: "open_failed = fst (PromisedDatabase_open PromisedDatabase_new ''/no/such/dir/db.sqlite'' None
      (Some (Inl (SqliteError ''SQLITE_CANTOPEN''))))"
    by (simp add: open_failed_def)
  have 3: "Conn ''/no/such/dir/db.sqlite'' (Some 6) =
      Conn ''/no/such/dir/db.sqlite'' (Some (case None of None \<Rightarrow> OPEN_CREATE OR OPEN_READWRITE | Some m \<Rightarrow> m))"
    by (simp add: OPEN_CREATE_def OPEN_READWRITE_def)
  from rejected_open_keeps_connection [OF 1 2 3,
      where sql = "''SELECT 1''" and params = "[]" and ?r1.0 = "Some (Inl (SqliteError ''SQLITE_MISUSE''))"
        and ?r2.0 = None and ?r3.0 = None and p = "JArr []" and cb = "IsFunction always_throws"
        and s = "()" and ?r4.0 = "\<lparr>row_events = [], completion = None\<rparr>" and ?r5.0 = None]
  have "p_db open_failed = Some (Conn ''/no/such/dir/db.sqlite'' (Some 6))"
    and "calls (PromisedDatabase_run open_failed ''SELECT 1'' [] (Some (Inl (SqliteError ''SQLITE_MISUSE'')))) =
     [RunCall (Conn ''/no/such/dir/db.sqlite'' (Some 6)) ''SELECT 1'' (unwrap_params [])]"
    and "promise (PromisedDatabase_run open_failed ''SELECT 1'' [] (Some (Inl (SqliteError ''SQLITE_MISUSE'')))) \<noteq>
     Rejected DbNotOpened"
    by simp_all
  with 1 show ?thesis by (simp add: unwrap_params_def)
qed

section \<open>The text of the insertion statements\<close>

lemma js_join_strs: "js_join sep (map JStr ks) = join_strings sep ks"
  by (simp add: js_join_def comp_def)

lemma sqlifyValue_text:
  "(if sqlifyValue v = JUndefined \<or> sqlifyValue v = JNull then [] else js_to_string (sqlifyValue v)) =
     (case v of
        JUndefined \<Rightarrow> ''NULL''
      | JNull \<Rightarrow> ''NULL''
      | JStr s \<Rightarrow> [CHR 0x22] @ s @ [CHR 0x22]
      | _ \<Rightarrow> js_to_string v)"
  by (cases v) (simp_all add: sqlifyValue_def)

text \<open>
  C6. In the value lists the builders emit, an undefined or null value is written
  \<open>NULL\<close>, a string is written between double quotes, and any other value (a number
  of any size, a fraction, \<open>NaN\<close>, an infinity, a boolean, and any object too) is written
  as its default textual representation.
\<close>

theorem sqlify_emitted_text:
  "js_join sep (map sqlifyValue vs) =
     join_strings sep
       (map (\<lambda>v. case v of
                    JUndefined \<Rightarrow> ''NULL''
                  | JNull \<Rightarrow> ''NULL''
                  | JStr s \<Rightarrow> [CHR 0x22] @ s @ [CHR 0x22]
                  | _ \<Rightarrow> js_to_string v) vs)"
  by (simp add: js_join_def comp_def sqlifyValue_text)

theorem sqlify_emitted_text_witness:
  "js_join '','' (map sqlifyValue
      [JUndefined, JNull, JStr ''Bob'', JNum ''32'', JNum ''1.5'', JNum ''18446744073709552000'',
       JNum ''NaN'', JNum ''-Infinity'', JBool True]) =
     ''NULL,NULL,'' @ [CHR 0x22] @ ''Bob'' @ [CHR 0x22] @
     '',32,1.5,18446744073709552000,NaN,-Infinity,true''"
  using sqlify_emitted_text [of "'',''"
      "[JUndefined, JNull, JStr ''Bob'', JNum ''32'', JNum ''1.5'', JNum ''18446744073709552000'',
        JNum ''NaN'', JNum ''-Infinity'', JBool True]"]
  by simp

lemma map_throwing_total:
  "map_throwing (\<lambda>x. Inr (f x)) xs = Inr (map f xs)"
  by (induction xs) simp_all

lemma lookup_own_keys:
  "distinct (map fst kvs) \<Longrightarrow> map (lookup kvs) (map fst kvs) = map snd kvs"
  by (induction kvs) (auto simp add: lookup_def image_iff split: option.splits)

lemma own_properties_read:
  "distinct (map fst own) \<Longrightarrow>
     map (\<lambda>k. case map_of own k of Some v \<Rightarrow> v | None \<Rightarrow> lookup others k) (map fst own) = map snd own"
  by (induction own) (auto simp add: image_iff split: option.splits)

lemma getKeysValues_object:
  "distinct (map fst own) \<Longrightarrow>
     getKeysValues proto (JObj text own others) None = Inr (map JStr (map fst own), map snd own)"
  using own_properties_read [of own others]
  by (simp add: getKeysValues_def map_throwing_total comp_def cong: option.case_cong)

lemma getKeysValues_map:
  "distinct (map fst entries) \<Longrightarrow>
     getKeysValues proto (JMap entries) None = Inr (map fst entries, map snd entries)"
  using lookup_own_keys [of entries]
  by (simp add: getKeysValues_def)

lemma getKeysValues_object_columns:
  "getKeysValues proto (JObj text own others) (Some (map JStr cols)) =
     Inr (map JStr cols, row_values cols (JObj text own others))"
  by (simp add: getKeysValues_def map_throwing_total comp_def cong: option.case_cong)

lemma getKeysValues_map_columns:
  "getKeysValues proto (JMap entries) (Some (map JStr cols)) =
     Inr (map JStr cols, row_values cols (JMap entries))"
  by (simp add: getKeysValues_def comp_def)

lemma run_wrapping_error_calls [simp]: "calls (run_wrapping_error sql r) = calls r"
  by (simp add: run_wrapping_error_def split: promise.splits)

lemma insert_calls:
  "p_db h = Some d \<Longrightarrow> sqlInsertParseObject proto row = Inr parsed \<Longrightarrow>
     calls (PromisedDatabase_insert proto h t row r) =
       [RunCall d (''INSERT INTO '' @ t @ '' '' @ parsed) (JArr [])]"
  by (simp add: PromisedDatabase_insert_def Let_def PromisedDatabase_run_def unwrap_params_def)

lemma replace_calls:
  "p_db h = Some d \<Longrightarrow> sqlInsertParseObject proto row = Inr parsed \<Longrightarrow>
     calls (PromisedDatabase_replace proto h t row r) =
       [RunCall d (''REPLACE INTO '' @ t @ '' '' @ parsed) (JArr [])]"
  by (simp add: PromisedDatabase_replace_def Let_def PromisedDatabase_run_def unwrap_params_def)

text \<open>
  C7. On a handle with a connection, \<open>insert\<close> and \<open>replace\<close> run a statement that,
  for an array, has no column list and the emitted values in the array's order, and,
  for an object or a Map with distinct keys, has the keys as column list, in the
  mapping's order, and the emitted values in the same order.
\<close>

theorem insert_replace_statement:
  assumes "p_db h = Some d"
    and "distinct (map fst kvs)"
    and "distinct (map fst entries)"
  shows "calls (PromisedDatabase_insert proto h t (JArr xs) r) =
           [RunCall d (''INSERT INTO '' @ t @ ''  VALUES ('' @ js_join '','' (map sqlifyValue xs) @ '')'')
              (JArr [])] \<and>
         calls (PromisedDatabase_insert proto h t (JObj str kvs others) r) =
           [RunCall d (''INSERT INTO '' @ t @ '' ('' @ join_strings '','' (map fst kvs) @ '') VALUES (''
                         @ js_join '','' (map sqlifyValue (map snd kvs)) @ '')'')
              (JArr [])] \<and>
         calls (PromisedDatabase_insert proto h t (JMap entries) r) =
           [RunCall d (''INSERT INTO '' @ t @ '' ('' @ js_join '','' (map fst entries) @ '') VALUES (''
                         @ js_join '','' (map sqlifyValue (map snd entries)) @ '')'')
              (JArr [])] \<and>
         calls (PromisedDatabase_replace proto h t (JArr xs) r) =
           [RunCall d (''REPLACE INTO '' @ t @ ''  VALUES ('' @ js_join '','' (map sqlifyValue xs) @ '')'')
              (JArr [])] \<and>
         calls (PromisedDatabase_replace proto h t (JObj str kvs others) r) =
           [RunCall d (''REPLACE INTO '' @ t @ '' ('' @ join_strings '','' (map fst kvs) @ '') VALUES (''
                         @ js_join '','' (map sqlifyValue (map snd kvs)) @ '')'')
              (JArr [])] \<and>
         calls (PromisedDatabase_replace proto h t (JMap entries) r) =
           [RunCall d (''REPLACE INTO '' @ t @ '' ('' @ js_join '','' (map fst entries) @ '') VALUES (''
                         @ js_join '','' (map sqlifyValue (map snd entries)) @ '')'')
              (JArr [])]"
proof -
  have arr: "sqlInsertParseObject proto (JArr xs) = Inr ('' VALUES ('' @ js_join '','' (map sqlifyValue xs) @ '')'')"
    by (simp add: sqlInsertParseObject_def)
  have obj: "sqlInsertParseObject proto (JObj str kvs others) =
      Inr (''('' @ join_strings '','' (map fst kvs) @ '') VALUES (''
            @ js_join '','' (map sqlifyValue (map snd kvs)) @ '')'')"
    using assms(2) js_join_strs [of "'',''" "map fst kvs"]
    by (simp add: sqlInsertParseObject_def getKeysValues_object)
  have mp: "sqlInsertParseObject proto (JMap entries) =
      Inr (''('' @ js_join '','' (map fst entries) @ '') VALUES (''
            @ js_join '','' (map sqlifyValue (map snd entries)) @ '')'')"
    using assms(3) by (simp add: sqlInsertParseObject_def getKeysValues_map)
  show ?thesis
    using insert_calls [OF assms(1) arr] insert_calls [OF assms(1) obj] insert_calls [OF assms(1) mp]
      replace_calls [OF assms(1) arr] replace_calls [OF assms(1) obj] replace_calls [OF assms(1) mp]
    by simp
qed

theorem insert_replace_statement_witness:
  "calls (PromisedDatabase_insert sample_proto opened ''foo'' (plain_object [(''name'', JStr ''Alice''), (''age'', JNum ''20'')]) None) =
     [RunCall (Conn ''db.sqlite'' (Some 6))
        (''INSERT INTO foo (name,age) VALUES ('' @ [CHR 0x22] @ ''Alice'' @ [CHR 0x22] @ '',20)'') (JArr [])] \<and>
   calls (PromisedDatabase_insert sample_proto opened ''foo'' (JArr [JNum ''50'', JStr ''Bob'', JNum ''32'']) None) =
     [RunCall (Conn ''db.sqlite'' (Some 6))
        (''INSERT INTO foo  VALUES (50,'' @ [CHR 0x22] @ ''Bob'' @ [CHR 0x22] @ '',32)'') (JArr [])] \<and>
   calls (PromisedDatabase_replace sample_proto opened ''foo''
            (JMap [(JStr ''name'', JStr ''Conan''), (JStr ''age'', JNum ''53'')]) None) =
     [RunCall (Conn ''db.sqlite'' (Some 6))
        (''REPLACE INTO foo (name,age) VALUES ('' @ [CHR 0x22] @ ''Conan'' @ [CHR 0x22] @ '',53)'') (JArr [])]"
proof -
  have 1: "p_db opened = Some (Conn ''db.sqlite'' (Some 6))"
    by (simp add: opened_def PromisedDatabase_open_def Let_def OPEN_CREATE_def OPEN_READWRITE_def)
  have 2: "distinct (map fst [(''name'', JStr ''Alice''), (''age'', JNum ''20'')])"
    by simp
  have 3: "distinct (map fst [(JStr ''name'', JStr ''Conan''), (JStr ''age'', JNum ''53'')])"
    by simp
  from insert_replace_statement [OF 1 2 3, where proto = sample_proto and t = "''foo''"
      and xs = "[JNum ''50'', JStr ''Bob'', JNum ''32'']" and r = None
      and str = "''[object Object]''"
      and others = "Object_prototype_methods @
        [(''__proto__'',
          JObj ''[object Object]'' [] (Object_prototype_methods @ [(''__proto__'', JNull)]))]"]
  show ?thesis
    by (simp add: plain_object_def js_join_def sqlifyValue_def)
qed



lemma insertMany_loop_rows:
  "\<forall>row \<in> set rows. is_row row \<Longrightarrow>
     insertMany_loop proto (Some (map JStr cols)) rows acc =
       Inr (acc @ map (\<lambda>row. ''('' @ js_join '','' (map sqlifyValue (row_values cols row)) @ '')'') rows)"
proof (induction rows arbitrary: acc)
  case Nil
  then show ?case by simp
next
  case (Cons row rows)
  then have rest: "\<forall>row \<in> set rows. is_row row" and row: "is_row row"
    by simp_all
  from row have "(case row of JArr xs \<Rightarrow> Inr xs
                  | _ \<Rightarrow> map_sum id snd (getKeysValues proto row (Some (map JStr cols)))) =
                 Inr (row_values cols row)"
    by (cases row) (simp_all add: getKeysValues_object_columns getKeysValues_map_columns)
  then show ?case
    using Cons.IH [OF rest] by simp
qed

text \<open>
  C8. On a handle with a connection, \<open>insertMany\<close> with a non-empty list of column
  names runs one statement that names exactly those columns and has one value list per
  row: the values of a mapping row are those under the column names, in the order of the
  column names (of a Map the values stored under them, of an object the values read
  under them, inherited ones too), and an array row is taken as it is.
\<close>

theorem insertMany_statement:
  assumes "p_db h = Some d"
    and "cols \<noteq> []"
    and "\<forall>row \<in> set rows. is_row row"
  shows "calls (PromisedDatabase_insertMany proto h t (Some cols) rows r) =
           [RunCall d
              (''INSERT INTO '' @ t @ '' ('' @ join_strings '','' cols @ '') VALUES '' @
               join_strings '',''
                 (map (\<lambda>row. ''('' @ js_join '','' (map sqlifyValue (row_values cols row)) @ '')'') rows))
              (JArr [])]"
  using assms(1,2) insertMany_loop_rows [OF assms(3), of proto cols "[]"]
  by (simp add: PromisedDatabase_insertMany_def Let_def PromisedDatabase_run_def unwrap_params_def)

theorem insertMany_statement_witness:
  "calls (PromisedDatabase_insertMany sample_proto opened ''foo'' (Some [''name'', ''age''])
            [plain_object [(''age'', JNum ''20''), (''name'', JStr ''Alice'')],
             JArr [JStr ''Bob'', JNum ''32''],
             JMap [(JStr ''name'', JStr ''Conan''), (JStr ''age'', JNum ''53'')]] None) =
     [RunCall (Conn ''db.sqlite'' (Some 6))
        (''INSERT INTO foo (name,age) VALUES ('' @ [CHR 0x22] @ ''Alice'' @ [CHR 0x22] @ '',20),(''
           @ [CHR 0x22] @ ''Bob'' @ [CHR 0x22] @ '',32),('' @ [CHR 0x22] @ ''Conan'' @ [CHR 0x22] @ '',53)'')
        (JArr [])] \<and>
   calls (PromisedDatabase_insertMany sample_proto opened ''foo'' (Some [''name'', ''toString'', ''age''])
            [plain_object [(''name'', JStr ''Alice'')]] None) =
     [RunCall (Conn ''db.sqlite'' (Some 6))
        (''INSERT INTO foo (name,toString,age) VALUES ('' @ [CHR 0x22] @ ''Alice'' @ [CHR 0x22] @
           '',function toString() { [native code] },NULL)'')
        (JArr [])]"
proof -
  have 1: "p_db opened = Some (Conn ''db.sqlite'' (Some 6))"
    by (simp add: opened_def PromisedDatabase_open_def Let_def OPEN_CREATE_def OPEN_READWRITE_def)
  have 2: "[''name'', ''age''] \<noteq> []" and 4: "[''name'', ''toString'', ''age''] \<noteq> []"
    by simp_all
  have 3: "\<forall>row \<in> set [plain_object [(''age'', JNum ''20''), (''name'', JStr ''Alice'')],
             JArr [JStr ''Bob'', JNum ''32''],
             JMap [(JStr ''name'', JStr ''Conan''), (JStr ''age'', JNum ''53'')]]. is_row row"
    by (simp add: plain_object_def)
  have 5: "\<forall>row \<in> set [plain_object [(''name'', JStr ''Alice'')]]. is_row row"
    by (simp add: plain_object_def)
  from insertMany_statement [OF 1 2 3, of sample_proto "''foo''" None]
    insertMany_statement [OF 1 4 5, of sample_proto "''foo''" None]
  show ?thesis
    by (simp add: plain_object_def Object_prototype_methods_def native_function_def js_join_def
        sqlifyValue_def lookup_def)
qed

section \<open>Failure of the run under a builder\<close>

lemma run_rejected:
  "calls (PromisedDatabase_run h sql params (Some (Inl err))) = [c] \<Longrightarrow>
     promise (PromisedDatabase_run h sql params (Some (Inl err))) = Rejected (EngineError err)"
  by (simp add: PromisedDatabase_run_def Let_def fire_def callback_def split: option.splits)

lemma run_calls_sql:
  "calls (PromisedDatabase_run h sql params r) = [RunCall d sql' p] \<Longrightarrow> sql' = sql"
  by (simp add: PromisedDatabase_run_def Let_def split: option.splits)

lemma run_wrapping_error_engine:
  assumes "calls (run_wrapping_error sql (PromisedDatabase_run h sql [] (Some (Inl err)))) = [RunCall d sql' p]"
  shows "promise (run_wrapping_error sql (PromisedDatabase_run h sql [] (Some (Inl err)))) =
           Rejected (SqlError sql' (EngineError err))"
proof -
  from assms have c: "calls (PromisedDatabase_run h sql [] (Some (Inl err))) = [RunCall d sql' p]"
    by simp
  then have "sql' = sql"
    by (rule run_calls_sql)
  moreover from c have "promise (PromisedDatabase_run h sql [] (Some (Inl err))) = Rejected (EngineError err)"
    by (rule run_rejected)
  ultimately show ?thesis
    by (simp add: run_wrapping_error_def)
qed

text \<open>
  C9. When \<open>insert\<close>, \<open>replace\<close> or \<open>insertMany\<close> has run its statement and the engine
  reports an error, the promise rejects with \<open>{ sql, error }\<close>: the text of the statement
  that was run, and the engine's error.
\<close>

theorem builders_wrap_engine_error:
  "(calls (PromisedDatabase_insert proto h t row (Some (Inl err))) = [RunCall d sql p] \<longrightarrow>
      promise (PromisedDatabase_insert proto h t row (Some (Inl err))) = Rejected (SqlError sql (EngineError err))) \<and>
   (calls (PromisedDatabase_replace proto h t row (Some (Inl err))) = [RunCall d sql p] \<longrightarrow>
      promise (PromisedDatabase_replace proto h t row (Some (Inl err))) = Rejected (SqlError sql (EngineError err))) \<and>
   (calls (PromisedDatabase_insertMany proto h t columnNames rows (Some (Inl err))) = [RunCall d sql p] \<longrightarrow>
      promise (PromisedDatabase_insertMany proto h t columnNames rows (Some (Inl err))) =
        Rejected (SqlError sql (EngineError err)))"
proof (intro conjI impI)
  assume "calls (PromisedDatabase_insert proto h t row (Some (Inl err))) = [RunCall d sql p]"
  then show "promise (PromisedDatabase_insert proto h t row (Some (Inl err))) = Rejected (SqlError sql (EngineError err))"
    by (cases "sqlInsertParseObject proto row")
      (simp_all add: PromisedDatabase_insert_def Let_def run_wrapping_error_engine)
next
  assume "calls (PromisedDatabase_replace proto h t row (Some (Inl err))) = [RunCall d sql p]"
  then show "promise (PromisedDatabase_replace proto h t row (Some (Inl err))) = Rejected (SqlError sql (EngineError err))"
    by (cases "sqlInsertParseObject proto row")
      (simp_all add: PromisedDatabase_replace_def Let_def run_wrapping_error_engine)
next
  assume "calls (PromisedDatabase_insertMany proto h t columnNames rows (Some (Inl err))) = [RunCall d sql p]"
  then show "promise (PromisedDatabase_insertMany proto h t columnNames rows (Some (Inl err))) =
        Rejected (SqlError sql (EngineError err))"
    by (simp add: PromisedDatabase_insertMany_def Let_def run_wrapping_error_engine
        split: prod.splits sum.splits)
qed


theorem builders_wrap_engine_error_witness:
  "calls (PromisedDatabase_insert sample_proto opened ''foo'' (JArr [JNum ''1''])
            (Some (Inl (SqliteError ''SQLITE_ERROR: no such table: foo'')))) =
     [RunCall (Conn ''db.sqlite'' (Some 6)) ''INSERT INTO foo  VALUES (1)'' (JArr [])] \<and>
   promise (PromisedDatabase_insert sample_proto opened ''foo'' (JArr [JNum ''1''])
            (Some (Inl (SqliteError ''SQLITE_ERROR: no such table: foo'')))) =
     Rejected (SqlError ''INSERT INTO foo  VALUES (1)''
                 (EngineError (SqliteError ''SQLITE_ERROR: no such table: foo''))) \<and>
   calls (PromisedDatabase_replace sample_proto opened ''foo'' (plain_object [(''id'', JNum ''1'')])
            (Some (Inl (SqliteError ''SQLITE_ERROR: no such table: foo'')))) =
     [RunCall (Conn ''db.sqlite'' (Some 6)) ''REPLACE INTO foo (id) VALUES (1)'' (JArr [])] \<and>
   promise (PromisedDatabase_replace sample_proto opened ''foo'' (plain_object [(''id'', JNum ''1'')])
            (Some (Inl (SqliteError ''SQLITE_ERROR: no such table: foo'')))) =
     Rejected (SqlError ''REPLACE INTO foo (id) VALUES (1)''
                 (EngineError (SqliteError ''SQLITE_ERROR: no such table: foo''))) \<and>
   calls (PromisedDatabase_insertMany sample_proto opened ''foo'' None [JArr [JNum ''1''], JArr [JNum ''2'']]
            (Some (Inl (SqliteError ''SQLITE_ERROR: no such table: foo'')))) =
     [RunCall (Conn ''db.sqlite'' (Some 6)) ''INSERT INTO foo  VALUES (1),(2)'' (JArr [])] \<and>
   promise (PromisedDatabase_insertMany sample_proto opened ''foo'' None [JArr [JNum ''1''], JArr [JNum ''2'']]
            (Some (Inl (SqliteError ''SQLITE_ERROR: no such table: foo'')))) =
     Rejected (SqlError ''INSERT INTO foo  VALUES (1),(2)''
                 (EngineError (SqliteError ''SQLITE_ERROR: no such table: foo'')))"
proof -
  have 1: "calls (PromisedDatabase_insert sample_proto opened ''foo'' (JArr [JNum ''1''])
            (Some (Inl (SqliteError ''SQLITE_ERROR: no such table: foo'')))) =
     [RunCall (Conn ''db.sqlite'' (Some 6)) ''INSERT INTO foo  VALUES (1)'' (JArr [])]"
    by code_simp
  have 2: "calls (PromisedDatabase_replace sample_proto opened ''foo'' (plain_object [(''id'', JNum ''1'')])
            (Some (Inl (SqliteError ''SQLITE_ERROR: no such table: foo'')))) =
     [RunCall (Conn ''db.sqlite'' (Some 6)) ''REPLACE INTO foo (id) VALUES (1)'' (JArr [])]"
    by code_simp
  have 3: "calls (PromisedDatabase_insertMany sample_proto opened ''foo'' None [JArr [JNum ''1''], JArr [JNum ''2'']]
            (Some (Inl (SqliteError ''SQLITE_ERROR: no such table: foo'')))) =
     [RunCall (Conn ''db.sqlite'' (Some 6)) ''INSERT INTO foo  VALUES (1),(2)'' (JArr [])]"
    by code_simp
  from 1 2 3
    builders_wrap_engine_error [of sample_proto opened "''foo''" "JArr [JNum ''1'']" "SqliteError ''SQLITE_ERROR: no such table: foo''"
      "Conn ''db.sqlite'' (Some 6)" "''INSERT INTO foo  VALUES (1)''" "JArr []"]
    builders_wrap_engine_error [of sample_proto opened "''foo''" "plain_object [(''id'', JNum ''1'')]" "SqliteError ''SQLITE_ERROR: no such table: foo''"
      "Conn ''db.sqlite'' (Some 6)" "''REPLACE INTO foo (id) VALUES (1)''" "JArr []"]
    builders_wrap_engine_error [of sample_proto opened "''foo''" _ "SqliteError ''SQLITE_ERROR: no such table: foo''"
      "Conn ''db.sqlite'' (Some 6)" "''INSERT INTO foo  VALUES (1),(2)''" "JArr []" None "[JArr [JNum ''1''], JArr [JNum ''2'']]"]
  show ?thesis by blast
qed

text \<open>
  The same wrapping applies when \<open>run\<close> fails for want of a connection.
\<close>

lemma builders_wrap_not_open:
  assumes "p_db h = None" and "sqlInsertParseObject proto row = Inr parsed"
  shows "promise (PromisedDatabase_insert proto h t row r) =
           Rejected (SqlError (''INSERT INTO '' @ t @ '' '' @ parsed) DbNotOpened) \<and>
         promise (PromisedDatabase_replace proto h t row r) =
           Rejected (SqlError (''REPLACE INTO '' @ t @ '' '' @ parsed) DbNotOpened)"
  using assms
  by (simp add: PromisedDatabase_insert_def PromisedDatabase_replace_def Let_def
      PromisedDatabase_run_def run_wrapping_error_def)

section \<open>Closing a handle that was never opened\<close>

text \<open>
  C10. In PromisedDatabase, \<open>close\<close> on a handle whose connection field was never set
  resolves at once with no value, whatever the engine would have answered, and issues no
  call to the engine.
\<close>

theorem close_never_opened:
  "p_db h = None \<Longrightarrow>
     promise (snd (PromisedDatabase_close h r)) = Resolved () \<and>
     calls (snd (PromisedDatabase_close h r)) = []"
  by (simp add: PromisedDatabase_close_def resolve_def)

theorem close_never_opened_witness:
  "p_db PromisedDatabase_new = None \<and>
   promise (snd (PromisedDatabase_close PromisedDatabase_new (Some (Inl (SqliteError ''SQLITE_MISUSE''))))) = Resolved () \<and>
   calls (snd (PromisedDatabase_close PromisedDatabase_new (Some (Inl (SqliteError ''SQLITE_MISUSE''))))) = []"
  using close_never_opened [of PromisedDatabase_new "Some (Inl (SqliteError ''SQLITE_MISUSE''))"]
  by (simp add: PromisedDatabase_new_def)

end
